theory Spec2Isabelle
  imports Complex_Main
begin

section \<open>Data model (types.ts)\<close>

text \<open>
  The TypeScript interfaces become records. \<open>Omit<Medicine, 'id'>\<close> is the record
  \<open>MedicineData\<close> and \<open>Medicine\<close> extends it by the id, as the object spread
  \<open>{ ...medicineData, id }\<close> does; \<open>Omit<Sale, 'id' | 'dateTime'>\<close> is \<open>SaleData\<close>
  and \<open>Sale\<close> extends it by id and dateTime. The fields \<open>id\<close>, \<open>quantity\<close> and
  \<open>price\<close> of a sale are written \<open>sale_id\<close>, \<open>sale_quantity\<close> and \<open>sale_price\<close>,
  the id of a medicine \<open>med_id\<close>.

  Numbers: a stock count is an \<open>int\<close> (the forms produce it with \<open>parseInt\<close>), a
  currency amount is a \<open>rat\<close>: JavaScript's doubles are idealised as exact numbers,
  and \<open>NaN\<close> is left out (the specification takes numbers to be numbers). An expiry
  date is the \<open>int\<close> of milliseconds since the epoch that \<open>new Date(expiryDate)\<close>
  denotes, and the reading of the clock, \<open>new Date()\<close>, is the explicit argument
  \<open>now\<close> of every function that looks at it.
\<close>

record MedicineData =
  name :: string
  supplier :: string
  price :: rat
  quantity :: int
  expiryDate :: int
  plu :: string
  category :: string

record Medicine = MedicineData +
  med_id :: string

record SaleData =
  customerName :: string
  medicineId :: string
  medicineName :: string
  sale_quantity :: int
  sale_price :: rat
  totalAmount :: rat

record Sale = SaleData +
  sale_id :: string
  dateTime :: string

record DashboardMetrics =
  totalInventoryValue :: rat
  totalSales :: rat
  lowStockItems :: nat
  expiredItems :: nat

text \<open>\<open>{ ...medicineData, id }\<close>\<close>

definition withId :: "MedicineData \<Rightarrow> string \<Rightarrow> Medicine" where
  "withId medicineData i =
     \<lparr>name = name medicineData, supplier = supplier medicineData,
      price = price medicineData, quantity = quantity medicineData,
      expiryDate = expiryDate medicineData, plu = plu medicineData,
      category = category medicineData, med_id = i\<rparr>"

text \<open>\<open>{ ...saleData, id, dateTime }\<close>\<close>

definition withIdAndTime :: "SaleData \<Rightarrow> string \<Rightarrow> string \<Rightarrow> Sale" where
  "withIdAndTime saleData i t =
     \<lparr>customerName = customerName saleData, medicineId = medicineId saleData,
      medicineName = medicineName saleData, sale_quantity = sale_quantity saleData,
      sale_price = sale_price saleData, totalAmount = totalAmount saleData,
      sale_id = i, dateTime = t\<rparr>"

section \<open>Domain predicates and metrics (utils.ts)\<close>

definition isExpired :: "int \<Rightarrow> int \<Rightarrow> bool" where
  "isExpired now expiry = (expiry < now)"

definition isLowStock :: "int \<Rightarrow> bool" where
  "isLowStock q = (q < 5)"

definition msPerDay :: int where
  "msPerDay = 1000 * 60 * 60 * 24"

text \<open>
  \<open>Math.ceil(diffTime / (1000 * 60 * 60 * 24))\<close>: the quotient is taken in the
  rationals and rounded up.
\<close>

definition isNearExpiry :: "int \<Rightarrow> int \<Rightarrow> int \<Rightarrow> bool" where
  "isNearExpiry now expiry daysThreshold =
     (let diffTime = expiry - now;
          diffDays = \<lceil>(of_int diffTime :: rat) / of_int msPerDay\<rceil>
      in diffDays > 0 \<and> diffDays \<le> daysThreshold)"

text \<open>The call with the default argument, \<open>daysThreshold = 90\<close>.\<close>

definition isNearExpiry_default :: "int \<Rightarrow> int \<Rightarrow> bool" where
  "isNearExpiry_default now expiry = isNearExpiry now expiry 90"

definition getMedicineStatus :: "int \<Rightarrow> Medicine \<Rightarrow> string" where
  "getMedicineStatus now medicine =
     (if isExpired now (expiryDate medicine) then ''Expired''
      else if isLowStock (quantity medicine) then ''Low Stock''
      else ''In Stock'')"

text \<open>\<open>Array.prototype.reduce\<close> with an initial value is a left fold.\<close>

definition calculateMetrics :: "int \<Rightarrow> Medicine list \<Rightarrow> Sale list \<Rightarrow> DashboardMetrics" where
  "calculateMetrics now meds sls =
     \<lparr>totalInventoryValue =
        foldl (\<lambda>sum med. sum + price med * of_int (quantity med)) 0 meds,
      totalSales = foldl (\<lambda>sum sale. sum + totalAmount sale) 0 sls,
      lowStockItems =
        length (filter (\<lambda>med. isLowStock (quantity med) \<and> \<not> isExpired now (expiryDate med)) meds),
      expiredItems = length (filter (\<lambda>med. isExpired now (expiryDate med)) meds)\<rparr>"






section \<open>The application state and its handlers (App.tsx)\<close>

text \<open>
  The two \<open>useState\<close> collections are one record; a handler takes the state of the
  render it was created in and returns the state after its \<open>set...\<close> calls.
  \<open>generateId()\<close> and \<open>new Date().toISOString()\<close> are read once per handler call and
  passed in as \<open>newId\<close> and \<open>stamp\<close>; a call in the running application has
  \<open>newId = generateId clock randomDigits\<close>.
\<close>

record AppState =
  medicines :: "Medicine list"
  sales :: "Sale list"

text \<open>
  What a sale handler reports with \<open>alert\<close>. The three failures are the
  specification's names for the messages: \<open>NotFound\<close> is "Please select a medicine",
  \<open>InsufficientStock\<close> is "Insufficient stock. Available: ..." of the form and
  "Error: Insufficient stock" of \<open>handleSell\<close>, \<open>InvalidQuantity\<close> is "Quantity must be
  greater than 0".
\<close>

datatype SaleError = NotFound | InsufficientStock | InvalidQuantity

definition handleAddMedicine :: "string \<Rightarrow> MedicineData \<Rightarrow> AppState \<Rightarrow> AppState" where
  "handleAddMedicine newId medicineData st =
     st\<lparr>medicines := medicines st @ [withId medicineData newId]\<rparr>"

definition handleUpdateMedicine :: "string \<Rightarrow> MedicineData \<Rightarrow> AppState \<Rightarrow> AppState" where
  "handleUpdateMedicine i medicineData st =
     st\<lparr>medicines :=
          map (\<lambda>med. if med_id med = i then withId medicineData i else med) (medicines st)\<rparr>"

definition handleDeleteMedicine :: "string \<Rightarrow> AppState \<Rightarrow> AppState" where
  "handleDeleteMedicine i st =
     st\<lparr>medicines := filter (\<lambda>med. med_id med \<noteq> i) (medicines st)\<rparr>"

text \<open>
  \<open>handleSell\<close>: the guard \<open>!medicine || medicine.quantity < saleData.quantity\<close>
  alerts "Error: Insufficient stock" and returns; otherwise the new sale is put in front
  of the history and every medicine with the sold id loses the sold quantity. The result
  is the alert (the failure, or the sale that was recorded) and the state afterwards.
\<close>

definition handleSell ::
  "string \<Rightarrow> string \<Rightarrow> SaleData \<Rightarrow> AppState \<Rightarrow> (SaleError + Sale) \<times> AppState" where
  "handleSell newId stamp saleData st =
     (case List.find (\<lambda>m. med_id m = medicineId saleData) (medicines st) of
        None \<Rightarrow> (Inl InsufficientStock, st)
      | Some medicine \<Rightarrow>
          if quantity medicine < sale_quantity saleData then (Inl InsufficientStock, st)
          else
            let newSale = withIdAndTime saleData newId stamp
            in (Inr newSale,
                st\<lparr>sales := newSale # sales st,
                   medicines :=
                     map (\<lambda>med. if med_id med = medicineId saleData
                                 then med\<lparr>quantity := quantity med - sale_quantity saleData\<rparr>
                                 else med)
                         (medicines st)\<rparr>))"

section \<open>The sale form (components/SalesTable.tsx)\<close>

text \<open>
  The form's fields after \<open>parseInt\<close>: the sale request of the specification.
\<close>

record SaleRequest =
  req_customerName :: string
  req_medicineId :: string
  req_quantity :: int

definition availableMedicines :: "int \<Rightarrow> Medicine list \<Rightarrow> Medicine list" where
  "availableMedicines now meds =
     filter (\<lambda>med. \<not> isExpired now (expiryDate med) \<and> quantity med > 0) meds"

text \<open>
  \<open>handleSubmit\<close> validates in the order of the source (medicine found, stock
  sufficient, quantity positive), builds \<open>saleData\<close> from the medicine it found and
  calls \<open>onSell\<close>, which the application binds to \<open>handleSell\<close> over the same
  \<open>medicines\<close>.
\<close>

definition handleSubmit ::
  "string \<Rightarrow> string \<Rightarrow> SaleRequest \<Rightarrow> AppState \<Rightarrow> (SaleError + Sale) \<times> AppState" where
  "handleSubmit newId stamp formData st =
     (case List.find (\<lambda>m. med_id m = req_medicineId formData) (medicines st) of
        None \<Rightarrow> (Inl NotFound, st)
      | Some medicine \<Rightarrow>
          let qty = req_quantity formData in
          if qty > quantity medicine then (Inl InsufficientStock, st)
          else if qty \<le> 0 then (Inl InvalidQuantity, st)
          else
            let saleData =
                  \<lparr>customerName = req_customerName formData,
                   medicineId = med_id medicine,
                   medicineName = name medicine,
                   sale_quantity = qty,
                   sale_price = price medicine,
                   totalAmount = price medicine * of_int qty\<rparr>
            in handleSell newId stamp saleData st)"

section \<open>Auxiliary definitions\<close>

text \<open>
  The \<open>saleData\<close> object that \<open>handleSubmit\<close> builds from a request and the medicine
  it resolved.
\<close>

definition saleDataOf :: "SaleRequest \<Rightarrow> Medicine \<Rightarrow> SaleData" where
  "saleDataOf formData medicine =
     \<lparr>customerName = req_customerName formData,
      medicineId = med_id medicine,
      medicineName = name medicine,
      sale_quantity = req_quantity formData,
      sale_price = price medicine,
      totalAmount = price medicine * of_int (req_quantity formData)\<rparr>"

text \<open>
  The catalog after \<open>handleSell\<close> has committed a sale of \<open>q\<close> units of the id \<open>i\<close>.
\<close>

definition afterSale :: "string \<Rightarrow> int \<Rightarrow> Medicine list \<Rightarrow> Medicine list" where
  "afterSale i q meds =
     map (\<lambda>med. if med_id med = i then med\<lparr>quantity := quantity med - q\<rparr> else med) meds"

text \<open>Resolving an id against the catalog, \<open>medicines.find(m => m.id === i)\<close>.\<close>

definition resolve :: "string \<Rightarrow> Medicine list \<Rightarrow> Medicine option" where
  "resolve i meds = List.find (\<lambda>m. med_id m = i) meds"

text \<open>
  The invariant of the data model: every medicine of the catalog has a stock count and
  a price that are not negative.
\<close>

definition catalogOk :: "Medicine list \<Rightarrow> bool" where
  "catalogOk meds = list_all (\<lambda>med. 0 \<le> quantity med \<and> 0 \<le> price med) meds"

text \<open>Concrete data for the scenarios of the specification.\<close>

definition tablets :: Medicine where
  "tablets =
     \<lparr>name = ''Tablets'', supplier = ''Acme'', price = 10, quantity = 3,
      expiryDate = 5000, plu = ''P1'', category = ''Pain'', med_id = ''m1''\<rparr>"

definition drops :: Medicine where
  "drops =
     \<lparr>name = ''Drops'', supplier = ''Acme'', price = 4, quantity = 2,
      expiryDate = 100, plu = ''P2'', category = ''Eye'', med_id = ''m2''\<rparr>"

definition syrup :: MedicineData where
  "syrup =
     \<lparr>name = ''Syrup'', supplier = ''Acme'', price = 7, quantity = 12,
      expiryDate = 9000, plu = ''P3'', category = ''Cough''\<rparr>"

definition shop :: AppState where
  "shop = \<lparr>medicines = [tablets], sales = []\<rparr>"

definition request :: "string \<Rightarrow> int \<Rightarrow> SaleRequest" where
  "request i q = \<lparr>req_customerName = ''Bob'', req_medicineId = i, req_quantity = q\<rparr>"


definition twins :: AppState where
  "twins = \<lparr>medicines = [tablets, drops\<lparr>med_id := ''m1''\<rparr>], sales = []\<rparr>"

section \<open>Resolving and selling: basic facts\<close>

lemma resolve_Some_id: "resolve i meds = Some m \<Longrightarrow> med_id m = i"
  unfolding resolve_def by (induction meds) (auto split: if_splits)

lemma resolve_Some_mem: "resolve i meds = Some m \<Longrightarrow> m \<in> set meds"
  unfolding resolve_def by (induction meds) (auto split: if_splits)

lemma resolve_afterSale:
  "resolve i meds = Some m \<Longrightarrow>
   resolve i (afterSale i q meds) = Some (m\<lparr>quantity := quantity m - q\<rparr>)"
  unfolding resolve_def afterSale_def by (induction meds) (auto split: if_splits)

lemma length_afterSale: "length (afterSale i q meds) = length meds"
  by (simp add: afterSale_def)

lemma afterSale_other:
  "i \<notin> set (map med_id meds) \<Longrightarrow> afterSale i q meds = meds"
  unfolding afterSale_def by (induction meds) auto

text \<open>The four ways through \<open>handleSubmit\<close>, one lemma each.\<close>

lemma handleSubmit_unresolved:
  assumes "resolve (req_medicineId formData) (medicines st) = None"
  shows "handleSubmit newId stamp formData st = (Inl NotFound, st)"
  using assms by (simp add: handleSubmit_def resolve_def)

lemma handleSubmit_insufficient:
  assumes "resolve (req_medicineId formData) (medicines st) = Some m"
    and "quantity m < req_quantity formData"
  shows "handleSubmit newId stamp formData st = (Inl InsufficientStock, st)"
  using assms by (simp add: handleSubmit_def resolve_def Let_def)

lemma handleSubmit_invalid:
  assumes "resolve (req_medicineId formData) (medicines st) = Some m"
    and "req_quantity formData \<le> quantity m"
    and "req_quantity formData \<le> 0"
  shows "handleSubmit newId stamp formData st = (Inl InvalidQuantity, st)"
  using assms by (simp add: handleSubmit_def resolve_def Let_def)

lemma handleSubmit_calls_handleSell:
  assumes "resolve (req_medicineId formData) (medicines st) = Some m"
    and "0 < req_quantity formData"
    and "req_quantity formData \<le> quantity m"
  shows "handleSubmit newId stamp formData st =
           handleSell newId stamp (saleDataOf formData m) st"
  using assms by (simp add: handleSubmit_def resolve_def Let_def saleDataOf_def)

lemma handleSell_commit:
  assumes "resolve (medicineId saleData) (medicines st) = Some m"
    and "sale_quantity saleData \<le> quantity m"
  shows "handleSell newId stamp saleData st =
           (Inr (withIdAndTime saleData newId stamp),
            st\<lparr>sales := withIdAndTime saleData newId stamp # sales st,
               medicines := afterSale (medicineId saleData) (sale_quantity saleData)
                              (medicines st)\<rparr>)"
  using assms by (simp add: handleSell_def resolve_def afterSale_def Let_def)

lemma handleSell_refuse:
  assumes "resolve (medicineId saleData) (medicines st) = None \<or>
           (\<exists>m. resolve (medicineId saleData) (medicines st) = Some m \<and>
                quantity m < sale_quantity saleData)"
  shows "handleSell newId stamp saleData st = (Inl InsufficientStock, st)"
  using assms by (auto simp add: handleSell_def resolve_def)

lemma handleSubmit_commit:
  assumes "resolve (req_medicineId formData) (medicines st) = Some m"
    and "0 < req_quantity formData"
    and "req_quantity formData \<le> quantity m"
  shows "handleSubmit newId stamp formData st =
           (Inr (withIdAndTime (saleDataOf formData m) newId stamp),
            st\<lparr>sales := withIdAndTime (saleDataOf formData m) newId stamp # sales st,
               medicines := afterSale (req_medicineId formData) (req_quantity formData)
                              (medicines st)\<rparr>)"
proof -
  let ?sd = "saleDataOf formData m"
  have i: "medicineId ?sd = req_medicineId formData"
    using resolve_Some_id [OF assms(1)] by (simp add: saleDataOf_def)
  have q: "sale_quantity ?sd = req_quantity formData"
    by (simp add: saleDataOf_def)
  have "handleSell newId stamp ?sd st =
          (Inr (withIdAndTime ?sd newId stamp),
           st\<lparr>sales := withIdAndTime ?sd newId stamp # sales st,
              medicines := afterSale (medicineId ?sd) (sale_quantity ?sd) (medicines st)\<rparr>)"
    by (rule handleSell_commit [where m = m]) (simp_all only: i q assms)
  then show ?thesis
    unfolding handleSubmit_calls_handleSell [OF assms] i q .
qed

text \<open>Every request falls under exactly one of the four.\<close>

lemma request_cases:
  obtains (unresolved) "resolve (req_medicineId formData) (medicines st) = None"
  | (insufficient) m where "resolve (req_medicineId formData) (medicines st) = Some m"
      and "quantity m < req_quantity formData"
  | (invalid) m where "resolve (req_medicineId formData) (medicines st) = Some m"
      and "req_quantity formData \<le> quantity m" and "req_quantity formData \<le> 0"
  | (commit) m where "resolve (req_medicineId formData) (medicines st) = Some m"
      and "0 < req_quantity formData" and "req_quantity formData \<le> quantity m"
proof (cases "resolve (req_medicineId formData) (medicines st)")
  case None
  then show ?thesis by (rule unresolved)
next
  case (Some m)
  consider "quantity m < req_quantity formData"
    | "req_quantity formData \<le> quantity m" "req_quantity formData \<le> 0"
    | "0 < req_quantity formData" "req_quantity formData \<le> quantity m"
    by linarith
  then show ?thesis
    using Some insufficient invalid commit by cases blast+
qed

section \<open>The sale transaction\<close>

text \<open>
  Claim C1. Whenever the requested id resolves to a medicine \<open>m\<close> with stock \<open>Q\<close> and
  the requested quantity \<open>q\<close> satisfies \<open>0 < q \<le> Q\<close>, the sale is committed: resolving
  the id afterwards gives \<open>m\<close> with quantity \<open>Q - q\<close> (so \<open>q = Q\<close> leaves 0), the
  catalog keeps its length, and the history is the old one with exactly one new record
  in front, whose totalAmount is \<open>price m * q\<close>.
\<close>

theorem sale_commit_succeeds:
  assumes "resolve (req_medicineId formData) (medicines st) = Some m"
    and "0 < req_quantity formData"
    and "req_quantity formData \<le> quantity m"
  shows "\<exists>sale st'.
           handleSubmit newId stamp formData st = (Inr sale, st') \<and>
           resolve (req_medicineId formData) (medicines st')
             = Some (m\<lparr>quantity := quantity m - req_quantity formData\<rparr>) \<and>
           length (medicines st') = length (medicines st) \<and>
           sales st' = sale # sales st \<and>
           totalAmount sale = price m * of_int (req_quantity formData)"
proof -
  have t: "totalAmount (withIdAndTime (saleDataOf formData m) newId stamp)
             = price m * of_int (req_quantity formData)"
    by (simp add: withIdAndTime_def saleDataOf_def)
  show ?thesis
    unfolding handleSubmit_commit [OF assms]
    using resolve_afterSale [OF assms(1)] t by (simp add: length_afterSale)
qed

theorem sale_commit_succeeds_witness:
  "resolve (req_medicineId (request ''m1'' 3)) (medicines shop) = Some tablets \<and>
   0 < req_quantity (request ''m1'' 3) \<and>
   req_quantity (request ''m1'' 3) \<le> quantity tablets \<and>
   (\<exists>sale st'.
      handleSubmit ''s1'' ''2024-01-01T00:00:00.000Z'' (request ''m1'' 3) shop = (Inr sale, st') \<and>
      resolve ''m1'' (medicines st') = Some (tablets\<lparr>quantity := 0\<rparr>) \<and>
      length (medicines st') = 1 \<and>
      sales st' = sale # sales shop \<and> totalAmount sale = 30)"
proof -
  have h1: "resolve (req_medicineId (request ''m1'' 3)) (medicines shop) = Some tablets"
    by (simp add: resolve_def request_def shop_def tablets_def)
  have h2: "0 < req_quantity (request ''m1'' 3)"
    by (simp add: request_def)
  have h3: "req_quantity (request ''m1'' 3) \<le> quantity tablets"
    by (simp add: request_def tablets_def)
  have v: "req_medicineId (request ''m1'' 3) = ''m1''" "req_quantity (request ''m1'' 3) = 3"
    "quantity tablets = 3" "price tablets = 10" "length (medicines shop) = 1"
    by (simp_all add: request_def tablets_def shop_def)
  have "\<exists>sale st'.
      handleSubmit ''s1'' ''2024-01-01T00:00:00.000Z'' (request ''m1'' 3) shop = (Inr sale, st') \<and>
      resolve ''m1'' (medicines st') = Some (tablets\<lparr>quantity := 0\<rparr>) \<and>
      length (medicines st') = 1 \<and>
      sales st' = sale # sales shop \<and> totalAmount sale = 30"
    using sale_commit_succeeds [OF h1 h2 h3, of "''s1''" "''2024-01-01T00:00:00.000Z''"]
    unfolding v by simp
  with h1 h2 h3 show ?thesis by (intro conjI)
qed

text \<open>
  Claim C2. A sale request fails with InsufficientStock exactly when its id resolves to
  a medicine whose stock is smaller than the requested quantity, and that failure leaves
  the state (sales history and every quantity) as it was. The guard of \<open>handleSell\<close>
  agrees on a resolved medicine: it refuses exactly when the stock is smaller than the
  quantity sold, and a refusal changes nothing.
\<close>

theorem insufficient_stock_iff:
  "(fst (handleSubmit newId stamp formData st) = Inl InsufficientStock \<longleftrightarrow>
      (\<exists>m. resolve (req_medicineId formData) (medicines st) = Some m \<and>
           quantity m < req_quantity formData)) \<and>
   (fst (handleSubmit newId stamp formData st) = Inl InsufficientStock \<longrightarrow>
      snd (handleSubmit newId stamp formData st) = st) \<and>
   (resolve (medicineId saleData) (medicines st) = Some m' \<longrightarrow>
      (fst (handleSell newId stamp saleData st) = Inl InsufficientStock \<longleftrightarrow>
         quantity m' < sale_quantity saleData)) \<and>
   (fst (handleSell newId stamp saleData st) = Inl InsufficientStock \<longrightarrow>
      snd (handleSell newId stamp saleData st) = st)"
proof (intro conjI)
  show "fst (handleSubmit newId stamp formData st) = Inl InsufficientStock \<longleftrightarrow>
      (\<exists>m. resolve (req_medicineId formData) (medicines st) = Some m \<and>
           quantity m < req_quantity formData)"
  proof (cases rule: request_cases [of formData st])
    case unresolved
    then show ?thesis by (simp add: handleSubmit_unresolved)
  next
    case (insufficient m)
    then show ?thesis by (simp add: handleSubmit_insufficient [where m = m])
  next
    case (invalid m)
    then show ?thesis by (simp add: handleSubmit_invalid [where m = m])
  next
    case (commit m)
    then show ?thesis by (simp add: handleSubmit_commit [where m = m])
  qed
  show "fst (handleSubmit newId stamp formData st) = Inl InsufficientStock \<longrightarrow>
      snd (handleSubmit newId stamp formData st) = st"
  proof (cases rule: request_cases [of formData st])
    case unresolved
    then show ?thesis by (simp add: handleSubmit_unresolved)
  next
    case (insufficient m)
    then show ?thesis by (simp add: handleSubmit_insufficient [where m = m])
  next
    case (invalid m)
    then show ?thesis by (simp add: handleSubmit_invalid [where m = m])
  next
    case (commit m)
    then show ?thesis by (simp add: handleSubmit_commit [where m = m])
  qed
  show "resolve (medicineId saleData) (medicines st) = Some m' \<longrightarrow>
      (fst (handleSell newId stamp saleData st) = Inl InsufficientStock \<longleftrightarrow>
         quantity m' < sale_quantity saleData)"
    by (simp add: handleSell_def resolve_def Let_def)
  show "fst (handleSell newId stamp saleData st) = Inl InsufficientStock \<longrightarrow>
      snd (handleSell newId stamp saleData st) = st"
    by (simp add: handleSell_def Let_def split: option.split)
qed

theorem insufficient_stock_iff_witness:
  "(\<exists>m. resolve (req_medicineId (request ''m1'' 4)) (medicines shop) = Some m \<and>
        quantity m < req_quantity (request ''m1'' 4)) \<and>
   fst (handleSubmit ''s1'' ''2024-01-01T00:00:00.000Z'' (request ''m1'' 4) shop)
     = Inl InsufficientStock \<and>
   snd (handleSubmit ''s1'' ''2024-01-01T00:00:00.000Z'' (request ''m1'' 4) shop) = shop \<and>
   sales shop = [] \<and> map quantity (medicines shop) = [3]"
proof -
  have ex: "\<exists>m. resolve (req_medicineId (request ''m1'' 4)) (medicines shop) = Some m \<and>
        quantity m < req_quantity (request ''m1'' 4)"
    by (simp add: resolve_def request_def shop_def tablets_def)
  have s: "sales shop = []" "map quantity (medicines shop) = [3]"
    by (simp_all add: shop_def tablets_def)
  note inst = insufficient_stock_iff [of "''s1''" "''2024-01-01T00:00:00.000Z''"
      "request ''m1'' 4" shop]
  from inst ex
  have f: "fst (handleSubmit ''s1'' ''2024-01-01T00:00:00.000Z'' (request ''m1'' 4) shop)
             = Inl InsufficientStock"
    by blast
  with inst
  have "snd (handleSubmit ''s1'' ''2024-01-01T00:00:00.000Z'' (request ''m1'' 4) shop) = shop"
    by blast
  with ex f s show ?thesis by (intro conjI)
qed

text \<open>
  Claim C3, as amended. A request with \<open>q \<le> 0\<close> always fails and leaves the state as
  it was; the failure is InvalidQuantity exactly when the id resolves to a medicine whose
  stock is at least \<open>q\<close> (so whenever the stock is not negative). The lookup and the
  stock comparison come first: an id that does not resolve fails with NotFound whatever
  the quantity.
\<close>

theorem invalid_quantity_iff:
  "(fst (handleSubmit newId stamp formData st) = Inl InvalidQuantity \<longleftrightarrow>
      (\<exists>m. resolve (req_medicineId formData) (medicines st) = Some m \<and>
           req_quantity formData \<le> quantity m \<and> req_quantity formData \<le> 0)) \<and>
   (req_quantity formData \<le> 0 \<longrightarrow>
      (\<exists>e. fst (handleSubmit newId stamp formData st) = Inl e) \<and>
      snd (handleSubmit newId stamp formData st) = st) \<and>
   (req_quantity formData \<le> 0 \<and>
    resolve (req_medicineId formData) (medicines st) = Some m' \<and> 0 \<le> quantity m' \<longrightarrow>
      handleSubmit newId stamp formData st = (Inl InvalidQuantity, st))"
proof (intro conjI)
  show "fst (handleSubmit newId stamp formData st) = Inl InvalidQuantity \<longleftrightarrow>
      (\<exists>m. resolve (req_medicineId formData) (medicines st) = Some m \<and>
           req_quantity formData \<le> quantity m \<and> req_quantity formData \<le> 0)"
  proof (cases rule: request_cases [of formData st])
    case unresolved
    then show ?thesis by (simp add: handleSubmit_unresolved)
  next
    case (insufficient m)
    then show ?thesis by (simp add: handleSubmit_insufficient [where m = m])
  next
    case (invalid m)
    then show ?thesis by (simp add: handleSubmit_invalid [where m = m])
  next
    case (commit m)
    then show ?thesis by (simp add: handleSubmit_commit [where m = m])
  qed
  show "req_quantity formData \<le> 0 \<longrightarrow>
      (\<exists>e. fst (handleSubmit newId stamp formData st) = Inl e) \<and>
      snd (handleSubmit newId stamp formData st) = st"
  proof (cases rule: request_cases [of formData st])
    case unresolved
    then show ?thesis by (simp add: handleSubmit_unresolved)
  next
    case (insufficient m)
    then show ?thesis by (simp add: handleSubmit_insufficient [where m = m])
  next
    case (invalid m)
    then show ?thesis by (simp add: handleSubmit_invalid [where m = m])
  next
    case (commit m)
    then show ?thesis by simp
  qed
  show "req_quantity formData \<le> 0 \<and>
    resolve (req_medicineId formData) (medicines st) = Some m' \<and> 0 \<le> quantity m' \<longrightarrow>
      handleSubmit newId stamp formData st = (Inl InvalidQuantity, st)"
  proof (intro impI, elim conjE)
    assume q: "req_quantity formData \<le> 0"
      and r: "resolve (req_medicineId formData) (medicines st) = Some m'"
      and s: "0 \<le> quantity m'"
    from q s have "req_quantity formData \<le> quantity m'" by linarith
    with r q show "handleSubmit newId stamp formData st = (Inl InvalidQuantity, st)"
      by (simp add: handleSubmit_invalid [where m = m'])
  qed
qed

theorem invalid_quantity_iff_witness:
  "req_quantity (request ''m1'' 0) \<le> 0 \<and>
   resolve (req_medicineId (request ''m1'' 0)) (medicines shop) = Some tablets \<and>
   0 \<le> quantity tablets \<and>
   handleSubmit ''s1'' ''2024-01-01T00:00:00.000Z'' (request ''m1'' 0) shop
     = (Inl InvalidQuantity, shop) \<and>
   req_quantity (request ''m1'' (- 1)) \<le> 0 \<and>
   resolve (req_medicineId (request ''m1'' (- 1))) (medicines shop) = Some tablets \<and>
   handleSubmit ''s1'' ''2024-01-01T00:00:00.000Z'' (request ''m1'' (- 1)) shop
     = (Inl InvalidQuantity, shop)"
proof -
  have h0: "req_quantity (request ''m1'' 0) \<le> 0"
    and h1: "req_quantity (request ''m1'' (- 1)) \<le> 0"
    by (simp_all add: request_def)
  have r0: "resolve (req_medicineId (request ''m1'' 0)) (medicines shop) = Some tablets"
    and r1: "resolve (req_medicineId (request ''m1'' (- 1))) (medicines shop) = Some tablets"
    by (simp_all add: resolve_def request_def shop_def tablets_def)
  have s: "0 \<le> quantity tablets"
    by (simp add: tablets_def)
  have a: "handleSubmit ''s1'' ''2024-01-01T00:00:00.000Z'' (request ''m1'' 0) shop
             = (Inl InvalidQuantity, shop)"
    using invalid_quantity_iff [of "''s1''" "''2024-01-01T00:00:00.000Z''" "request ''m1'' 0"
        shop tablets] h0 r0 s
    by blast
  have b: "handleSubmit ''s1'' ''2024-01-01T00:00:00.000Z'' (request ''m1'' (- 1)) shop
             = (Inl InvalidQuantity, shop)"
    using invalid_quantity_iff [of "''s1''" "''2024-01-01T00:00:00.000Z''"
        "request ''m1'' (- 1)" shop tablets] h1 r1 s
    by blast
  from h0 r0 s a h1 r1 b show ?thesis by (intro conjI)
qed

text \<open>
  Claim C3 as written fails where the id does not resolve: the request for 0 units of
  the unknown id \<open>zz\<close> is answered with NotFound.
\<close>

theorem invalid_quantity_counterexample:
  "req_quantity (request ''zz'' 0) \<le> 0 \<and>
   fst (handleSubmit ''s1'' ''2024-01-01T00:00:00.000Z'' (request ''zz'' 0) shop)
     = Inl NotFound \<and>
   fst (handleSubmit ''s1'' ''2024-01-01T00:00:00.000Z'' (request ''zz'' 0) shop)
     \<noteq> Inl InvalidQuantity"
  by (simp add: handleSubmit_def request_def shop_def tablets_def)

text \<open>
  Claim C4. A request whose id does not resolve fails with NotFound and leaves catalog
  and history as they were; NotFound is reported for no other request, and it is
  different from the other two failures.
\<close>

theorem not_found_iff:
  "(resolve (req_medicineId formData) (medicines st) = None \<longrightarrow>
      handleSubmit newId stamp formData st = (Inl NotFound, st)) \<and>
   (fst (handleSubmit newId stamp formData st) = Inl NotFound \<longrightarrow>
      resolve (req_medicineId formData) (medicines st) = None) \<and>
   NotFound \<noteq> InsufficientStock \<and> NotFound \<noteq> InvalidQuantity"
proof (intro conjI)
  show "resolve (req_medicineId formData) (medicines st) = None \<longrightarrow>
      handleSubmit newId stamp formData st = (Inl NotFound, st)"
    by (simp add: handleSubmit_unresolved)
  show "fst (handleSubmit newId stamp formData st) = Inl NotFound \<longrightarrow>
      resolve (req_medicineId formData) (medicines st) = None"
  proof (cases rule: request_cases [of formData st])
    case unresolved
    then show ?thesis by simp
  next
    case (insufficient m)
    then show ?thesis by (simp add: handleSubmit_insufficient [where m = m])
  next
    case (invalid m)
    then show ?thesis by (simp add: handleSubmit_invalid [where m = m])
  next
    case (commit m)
    then show ?thesis by (simp add: handleSubmit_commit [where m = m])
  qed
qed simp_all

theorem not_found_iff_witness:
  "resolve (req_medicineId (request ''zz'' 2)) (medicines shop) = None \<and>
   handleSubmit ''s1'' ''2024-01-01T00:00:00.000Z'' (request ''zz'' 2) shop
     = (Inl NotFound, shop)"
proof -
  have h: "resolve (req_medicineId (request ''zz'' 2)) (medicines shop) = None"
    by (simp add: resolve_def request_def shop_def tablets_def)
  with not_found_iff [of "request ''zz'' 2" shop "''s1''" "''2024-01-01T00:00:00.000Z''"]
  have "handleSubmit ''s1'' ''2024-01-01T00:00:00.000Z'' (request ''zz'' 2) shop
          = (Inl NotFound, shop)"
    by blast
  with h show ?thesis by (intro conjI)
qed





section \<open>Status classification\<close>

lemma isLowStock_iff: "isLowStock q \<longleftrightarrow> q < 5"
  by (simp add: isLowStock_def)

lemma isLowStock_boundary: "\<not> isLowStock 5 \<and> isLowStock 4"
  by (simp add: isLowStock_def)

text \<open>
  Claim C6. The status of a medicine is "Expired" whenever it is expired, whatever its
  quantity; if it is not expired the status is "Low Stock" exactly when the quantity is
  below 5, and "In Stock" otherwise. The status is always one of the three labels, and
  each label is the status of some medicine.
\<close>

theorem getMedicineStatus_priority:
  "(isExpired now (expiryDate m) \<longrightarrow> getMedicineStatus now m = ''Expired'') \<and>
   (\<not> isExpired now (expiryDate m) \<longrightarrow>
      (getMedicineStatus now m = ''Low Stock'' \<longleftrightarrow> quantity m < 5)) \<and>
   (\<not> isExpired now (expiryDate m) \<and> \<not> quantity m < 5 \<longrightarrow>
      getMedicineStatus now m = ''In Stock'') \<and>
   range (getMedicineStatus now) = {''Expired'', ''Low Stock'', ''In Stock''}"
proof (intro conjI)
  show "range (getMedicineStatus now) = {''Expired'', ''Low Stock'', ''In Stock''}"
  proof
    show "range (getMedicineStatus now) \<subseteq> {''Expired'', ''Low Stock'', ''In Stock''}"
      by (auto simp add: getMedicineStatus_def)
    have "getMedicineStatus now (tablets\<lparr>expiryDate := now - 1\<rparr>) = ''Expired''"
      "getMedicineStatus now (tablets\<lparr>expiryDate := now, quantity := 4\<rparr>) = ''Low Stock''"
      "getMedicineStatus now (tablets\<lparr>expiryDate := now, quantity := 5\<rparr>) = ''In Stock''"
      by (simp_all add: getMedicineStatus_def isExpired_def isLowStock_def)
    then show "{''Expired'', ''Low Stock'', ''In Stock''} \<subseteq> range (getMedicineStatus now)"
      by (metis empty_subsetI insert_subset rangeI)
  qed
qed (simp_all add: getMedicineStatus_def isLowStock_def)

theorem getMedicineStatus_priority_witness:
  "isExpired 200 (expiryDate drops) \<and> quantity drops < 5 \<and>
   getMedicineStatus 200 drops = ''Expired'' \<and>
   \<not> isExpired 50 (expiryDate drops) \<and> getMedicineStatus 50 drops = ''Low Stock'' \<and>
   \<not> isExpired 50 (expiryDate syrup) \<and> \<not> quantity (withId syrup ''m3'') < 5 \<and>
   getMedicineStatus 50 (withId syrup ''m3'') = ''In Stock''"
proof -
  have e: "isExpired 200 (expiryDate drops)" "\<not> isExpired 50 (expiryDate drops)"
    "\<not> isExpired 50 (expiryDate syrup)" "expiryDate (withId syrup ''m3'') = expiryDate syrup"
    by (simp_all add: isExpired_def drops_def syrup_def withId_def)
  have q: "quantity drops < 5" "\<not> quantity (withId syrup ''m3'') < 5"
    by (simp_all add: drops_def syrup_def withId_def)
  have a: "getMedicineStatus 200 drops = ''Expired''"
    using getMedicineStatus_priority [of 200 drops] e by blast
  have b: "getMedicineStatus 50 drops = ''Low Stock''"
    using getMedicineStatus_priority [of 50 drops] e q by blast
  have c: "getMedicineStatus 50 (withId syrup ''m3'') = ''In Stock''"
    using getMedicineStatus_priority [of 50 "withId syrup ''m3''"] e q by metis
  from e q a b c show ?thesis by (intro conjI)
qed

section \<open>Near expiry\<close>

lemma msPerDay_pos: "0 < msPerDay"
  by (simp add: msPerDay_def)

lemma diffDays_pos: "0 < \<lceil>(of_int x :: rat) / of_int msPerDay\<rceil> \<longleftrightarrow> 0 < x"
  using msPerDay_pos by (simp add: zero_less_divide_iff)

lemma diffDays_le: "\<lceil>(of_int x :: rat) / of_int msPerDay\<rceil> \<le> t \<longleftrightarrow> x \<le> t * msPerDay"
proof -
  have "\<lceil>(of_int x :: rat) / of_int msPerDay\<rceil> \<le> t
          \<longleftrightarrow> (of_int x :: rat) / of_int msPerDay \<le> of_int t"
    by (rule ceiling_le_iff)
  also have "\<dots> \<longleftrightarrow> (of_int x :: rat) \<le> of_int t * of_int msPerDay"
    using msPerDay_pos by (simp add: pos_divide_le_eq)
  also have "\<dots> \<longleftrightarrow> (of_int x :: rat) \<le> of_int (t * msPerDay)"
    by simp
  also have "\<dots> \<longleftrightarrow> x \<le> t * msPerDay"
    by (rule of_int_le_iff)
  finally show ?thesis .
qed

lemma isNearExpiry_interval:
  "isNearExpiry now d t \<longleftrightarrow> now < d \<and> d \<le> now + t * msPerDay"
proof -
  have "isNearExpiry now d t \<longleftrightarrow> 0 < d - now \<and> d - now \<le> t * msPerDay"
    unfolding isNearExpiry_def Let_def diffDays_pos diffDays_le by (rule refl)
  then show ?thesis by auto
qed

text \<open>
  Claim C7, as amended. \<open>isNearExpiry\<close> holds exactly when the day difference,
  rounded up, is positive and at most the threshold, that is when the expiry date lies
  after now and at most \<open>t\<close> days ahead. It is false for a date in the past or exactly
  now, false for a date \<open>t + 1\<close> days ahead, and true for a date exactly \<open>t\<close> days
  ahead when \<open>t \<ge> 1\<close>. The default threshold is 90.
\<close>

theorem isNearExpiry_window:
  "(isNearExpiry now d t \<longleftrightarrow>
      0 < \<lceil>(of_int (d - now) :: rat) / of_int msPerDay\<rceil> \<and>
      \<lceil>(of_int (d - now) :: rat) / of_int msPerDay\<rceil> \<le> t) \<and>
   (isNearExpiry now d t \<longleftrightarrow> now < d \<and> d \<le> now + t * msPerDay) \<and>
   (d \<le> now \<longrightarrow> \<not> isNearExpiry now d t) \<and>
   (1 \<le> t \<longrightarrow> isNearExpiry now (now + t * msPerDay) t) \<and>
   \<not> isNearExpiry now (now + (t + 1) * msPerDay) t \<and>
   (isNearExpiry_default now d \<longleftrightarrow> isNearExpiry now d 90)"
proof (intro conjI)
  show "isNearExpiry now d t \<longleftrightarrow>
      0 < \<lceil>(of_int (d - now) :: rat) / of_int msPerDay\<rceil> \<and>
      \<lceil>(of_int (d - now) :: rat) / of_int msPerDay\<rceil> \<le> t"
    unfolding isNearExpiry_def Let_def by (rule refl)
  show "isNearExpiry now d t \<longleftrightarrow> now < d \<and> d \<le> now + t * msPerDay"
    by (rule isNearExpiry_interval)
  show "d \<le> now \<longrightarrow> \<not> isNearExpiry now d t"
    by (simp add: isNearExpiry_interval)
  show "1 \<le> t \<longrightarrow> isNearExpiry now (now + t * msPerDay) t"
    using msPerDay_pos by (simp add: isNearExpiry_interval)
  show "\<not> isNearExpiry now (now + (t + 1) * msPerDay) t"
    using msPerDay_pos by (simp add: isNearExpiry_interval algebra_simps)
  show "isNearExpiry_default now d \<longleftrightarrow> isNearExpiry now d 90"
    by (simp add: isNearExpiry_default_def)
qed

theorem isNearExpiry_window_witness:
  "(1::int) \<le> 90 \<and>
   isNearExpiry 1000 (1000 + 90 * msPerDay) 90 \<and>
   \<not> isNearExpiry 1000 (1000 + (90 + 1) * msPerDay) 90 \<and>
   (1000::int) \<le> 1000 \<and> \<not> isNearExpiry 1000 1000 90 \<and>
   (999::int) \<le> 1000 \<and> \<not> isNearExpiry 1000 999 90 \<and>
   isNearExpiry_default 1000 (1000 + 90 * msPerDay)"
proof -
  have h: "(1::int) \<le> 90" "(1000::int) \<le> 1000" "(999::int) \<le> 1000"
    by simp_all
  have a: "isNearExpiry 1000 (1000 + 90 * msPerDay) 90"
    using isNearExpiry_window [of 1000 1000 90] h(1) by blast
  have b: "\<not> isNearExpiry 1000 (1000 + (90 + 1) * msPerDay) 90"
    using isNearExpiry_window [of 1000 1000 90] by blast
  have c: "\<not> isNearExpiry 1000 1000 90"
    using isNearExpiry_window [of 1000 1000 90] h(2) by blast
  have d: "\<not> isNearExpiry 1000 999 90"
    using isNearExpiry_window [of 1000 999 90] h(3) by blast
  have e: "isNearExpiry_default 1000 (1000 + 90 * msPerDay)"
    using isNearExpiry_window [of 1000 "1000 + 90 * msPerDay" 90] a by blast
  from h a b c d e show ?thesis by (intro conjI)
qed

text \<open>
  Claim C7 as written fails at the threshold 0 (and at every negative one): the date
  exactly 0 days ahead is now, and is not near expiry.
\<close>

theorem isNearExpiry_counterexample:
  "\<not> isNearExpiry 1000 (1000 + 0 * msPerDay) 0"
  by (simp add: isNearExpiry_def)

section \<open>Metrics\<close>

lemma foldl_plus_sum_list:
  fixes a :: rat
  shows "foldl (\<lambda>sum x. sum + f x) a xs = a + sum_list (map f xs)"
  by (induction xs arbitrary: a) (simp_all add: add.assoc)

lemma count_status_Expired:
  "count_list (map (getMedicineStatus now) meds) ''Expired''
     = length (filter (\<lambda>med. isExpired now (expiryDate med)) meds)"
  by (induction meds) (simp_all add: getMedicineStatus_def)

lemma count_status_Low_Stock:
  "count_list (map (getMedicineStatus now) meds) ''Low Stock''
     = length (filter (\<lambda>med. isLowStock (quantity med) \<and> \<not> isExpired now (expiryDate med)) meds)"
  by (induction meds) (simp_all add: getMedicineStatus_def)

lemma disjoint_counts:
  "length (filter (\<lambda>x. P x \<and> \<not> Q x) xs) + length (filter Q xs) \<le> length xs"
  by (induction xs) simp_all

text \<open>
  Claim C8. \<open>calculateMetrics\<close> returns the sum of price times quantity over all
  medicines (nothing is filtered out), the sum of totalAmount over all sales, the number
  of medicines that are low in stock and not expired, and the number of expired
  medicines whatever their quantity. The two counts are the numbers of medicines whose
  status is "Low Stock" and "Expired", so no medicine is counted in both.
\<close>

theorem calculateMetrics_totals:
  "totalInventoryValue (calculateMetrics now meds sls)
     = (\<Sum>med\<leftarrow>meds. price med * of_int (quantity med)) \<and>
   totalSales (calculateMetrics now meds sls) = (\<Sum>sale\<leftarrow>sls. totalAmount sale) \<and>
   lowStockItems (calculateMetrics now meds sls)
     = length (filter (\<lambda>med. isLowStock (quantity med) \<and> \<not> isExpired now (expiryDate med)) meds) \<and>
   expiredItems (calculateMetrics now meds sls)
     = length (filter (\<lambda>med. isExpired now (expiryDate med)) meds) \<and>
   lowStockItems (calculateMetrics now meds sls)
     = count_list (map (getMedicineStatus now) meds) ''Low Stock'' \<and>
   expiredItems (calculateMetrics now meds sls)
     = count_list (map (getMedicineStatus now) meds) ''Expired'' \<and>
   lowStockItems (calculateMetrics now meds sls) + expiredItems (calculateMetrics now meds sls)
     \<le> length meds"
proof (intro conjI)
  show "totalInventoryValue (calculateMetrics now meds sls)
     = (\<Sum>med\<leftarrow>meds. price med * of_int (quantity med))"
    by (simp add: calculateMetrics_def foldl_plus_sum_list)
  show "totalSales (calculateMetrics now meds sls) = (\<Sum>sale\<leftarrow>sls. totalAmount sale)"
    by (simp add: calculateMetrics_def foldl_plus_sum_list)
  show "lowStockItems (calculateMetrics now meds sls)
     = length (filter (\<lambda>med. isLowStock (quantity med) \<and> \<not> isExpired now (expiryDate med)) meds)"
    by (simp add: calculateMetrics_def)
  show "expiredItems (calculateMetrics now meds sls)
     = length (filter (\<lambda>med. isExpired now (expiryDate med)) meds)"
    by (simp add: calculateMetrics_def)
  show "lowStockItems (calculateMetrics now meds sls)
     = count_list (map (getMedicineStatus now) meds) ''Low Stock''"
    by (simp add: calculateMetrics_def count_status_Low_Stock)
  show "expiredItems (calculateMetrics now meds sls)
     = count_list (map (getMedicineStatus now) meds) ''Expired''"
    by (simp add: calculateMetrics_def count_status_Expired)
  show "lowStockItems (calculateMetrics now meds sls) + expiredItems (calculateMetrics now meds sls)
     \<le> length meds"
    by (simp add: calculateMetrics_def disjoint_counts)
qed

theorem calculateMetrics_totals_witness:
  "isLowStock (quantity drops) \<and> isExpired 200 (expiryDate drops) \<and>
   expiredItems (calculateMetrics 200 [drops] []) = 1 \<and>
   lowStockItems (calculateMetrics 200 [drops] []) = 0 \<and>
   totalInventoryValue (calculateMetrics 200 [drops] []) = 8"
proof -
  have h: "isLowStock (quantity drops)" "isExpired 200 (expiryDate drops)"
    by (simp_all add: isLowStock_def isExpired_def drops_def)
  have v: "price drops = 4" "quantity drops = 2"
    by (simp_all add: drops_def)
  from calculateMetrics_totals [of 200 "[drops]" "[]"] h v
  have "expiredItems (calculateMetrics 200 [drops] []) = 1"
    "lowStockItems (calculateMetrics 200 [drops] []) = 0"
    "totalInventoryValue (calculateMetrics 200 [drops] []) = 8"
    by simp_all
  with h show ?thesis by (intro conjI)
qed

section \<open>The catalog invariant\<close>

lemma catalogOk_afterSale:
  assumes "catalogOk meds"
    and "distinct (map med_id meds)"
    and "resolve i meds = Some m"
    and "q \<le> quantity m"
  shows "catalogOk (afterSale i q meds)"
  using assms
proof (induction meds)
  case Nil
  then show ?case by (simp add: resolve_def)
next
  case (Cons x xs)
  show ?case
  proof (cases "med_id x = i")
    case True
    with Cons.prems(3) have "m = x"
      by (simp add: resolve_def)
    moreover from True Cons.prems(2) have "afterSale i q xs = xs"
      by (simp add: afterSale_other)
    ultimately show ?thesis
      using True Cons.prems(1,4) by (simp add: afterSale_def catalogOk_def)
  next
    case False
    with Cons.prems have "catalogOk (afterSale i q xs)"
      by (intro Cons.IH) (simp_all add: catalogOk_def resolve_def)
    with False Cons.prems(1) show ?thesis
      by (simp add: afterSale_def catalogOk_def)
  qed
qed

lemma handleSell_catalogOk:
  assumes "catalogOk (medicines st)" and "distinct (map med_id (medicines st))"
  shows "catalogOk (medicines (snd (handleSell newId stamp saleData st)))"
proof (cases "resolve (medicineId saleData) (medicines st)")
  case None
  then show ?thesis
    using assms(1) by (simp add: handleSell_refuse)
next
  case (Some m)
  show ?thesis
  proof (cases "quantity m < sale_quantity saleData")
    case True
    with Some show ?thesis
      using assms(1) by (simp add: handleSell_refuse)
  next
    case False
    then have q: "sale_quantity saleData \<le> quantity m" by simp
    show ?thesis
      unfolding handleSell_commit [OF Some q]
      using catalogOk_afterSale [OF assms Some q] by simp
  qed
qed

lemma handleSubmit_catalogOk:
  assumes "catalogOk (medicines st)" and "distinct (map med_id (medicines st))"
  shows "catalogOk (medicines (snd (handleSubmit newId stamp formData st)))"
proof (cases rule: request_cases [of formData st])
  case unresolved
  then show ?thesis using assms(1) by (simp add: handleSubmit_unresolved)
next
  case (insufficient m)
  then show ?thesis using assms(1) by (simp add: handleSubmit_insufficient [where m = m])
next
  case (invalid m)
  then show ?thesis using assms(1) by (simp add: handleSubmit_invalid [where m = m])
next
  case (commit m)
  show ?thesis
    unfolding handleSubmit_calls_handleSell [OF commit]
    by (rule handleSell_catalogOk [OF assms])
qed

lemma catalogOk_update:
  assumes "catalogOk meds"
  shows "catalogOk (map (\<lambda>med. if med_id med = i then withId medicineData i else med) meds)
           \<longleftrightarrow> (i \<in> set (map med_id meds) \<longrightarrow>
                  0 \<le> quantity medicineData \<and> 0 \<le> price medicineData)"
  using assms
proof (induction meds)
  case Nil
  then show ?case by (simp add: catalogOk_def)
next
  case (Cons x xs)
  from Cons.prems have x: "0 \<le> quantity x \<and> 0 \<le> price x" and xs: "catalogOk xs"
    by (simp_all add: catalogOk_def)
  have w: "quantity (withId medicineData i) = quantity medicineData"
    "price (withId medicineData i) = price medicineData"
    by (simp_all add: withId_def)
  let ?f = "\<lambda>med. if med_id med = i then withId medicineData i else med"
  have c: "catalogOk (map ?f (x # xs)) \<longleftrightarrow>
             (0 \<le> quantity (?f x) \<and> 0 \<le> price (?f x)) \<and> catalogOk (map ?f xs)"
    by (simp add: catalogOk_def)
  show ?case
    unfolding c Cons.IH [OF xs] using x w by auto
qed

text \<open>
  Claim C9, as amended. From a catalog in which every quantity and price is not
  negative: adding a medicine keeps the invariant exactly when the data added has a
  quantity and a price that are not negative; editing the id \<open>i\<close> keeps it exactly when
  no medicine carries \<open>i\<close> or the new data has a quantity and a price that are not
  negative; deleting always keeps it; and committing a sale keeps it when the ids of the
  catalog are distinct.
\<close>

theorem catalog_invariant_preserved:
  assumes "catalogOk (medicines st)"
  shows "(catalogOk (medicines (handleAddMedicine newId medicineData st)) \<longleftrightarrow>
            0 \<le> quantity medicineData \<and> 0 \<le> price medicineData) \<and>
         (catalogOk (medicines (handleUpdateMedicine i medicineData st)) \<longleftrightarrow>
            (i \<in> set (map med_id (medicines st)) \<longrightarrow>
               0 \<le> quantity medicineData \<and> 0 \<le> price medicineData)) \<and>
         (0 \<le> quantity medicineData \<and> 0 \<le> price medicineData \<longrightarrow>
            catalogOk (medicines (handleUpdateMedicine i medicineData st))) \<and>
         catalogOk (medicines (handleDeleteMedicine i st)) \<and>
         (distinct (map med_id (medicines st)) \<longrightarrow>
            catalogOk (medicines (snd (handleSell newId stamp saleData st))) \<and>
            catalogOk (medicines (snd (handleSubmit newId stamp formData st))))"
proof (intro conjI impI)
  show "catalogOk (medicines (handleAddMedicine newId medicineData st)) \<longleftrightarrow>
            0 \<le> quantity medicineData \<and> 0 \<le> price medicineData"
    using assms by (simp add: handleAddMedicine_def catalogOk_def withId_def)
  show u: "catalogOk (medicines (handleUpdateMedicine i medicineData st)) \<longleftrightarrow>
            (i \<in> set (map med_id (medicines st)) \<longrightarrow>
               0 \<le> quantity medicineData \<and> 0 \<le> price medicineData)"
    using catalogOk_update [OF assms] by (simp add: handleUpdateMedicine_def)
  show "catalogOk (medicines (handleUpdateMedicine i medicineData st))"
    if "0 \<le> quantity medicineData \<and> 0 \<le> price medicineData"
    using u that by blast
  show "catalogOk (medicines (handleDeleteMedicine i st))"
    using assms by (simp add: handleDeleteMedicine_def catalogOk_def list_all_iff)
  show "catalogOk (medicines (snd (handleSell newId stamp saleData st)))"
    if "distinct (map med_id (medicines st))"
    using assms that by (rule handleSell_catalogOk)
  show "catalogOk (medicines (snd (handleSubmit newId stamp formData st)))"
    if "distinct (map med_id (medicines st))"
    using assms that by (rule handleSubmit_catalogOk)
qed

theorem catalog_invariant_preserved_witness:
  "catalogOk (medicines shop) \<and>
   0 \<le> quantity syrup \<and> 0 \<le> price syrup \<and>
   ''m1'' \<in> set (map med_id (medicines shop)) \<and>
   \<not> (0 \<le> quantity (syrup\<lparr>quantity := - 1\<rparr>) \<and> 0 \<le> price (syrup\<lparr>quantity := - 1\<rparr>)) \<and>
   distinct (map med_id (medicines shop)) \<and>
   catalogOk (medicines (handleAddMedicine ''m3'' syrup shop)) \<and>
   catalogOk (medicines (handleUpdateMedicine ''m1'' syrup shop)) \<and>
   \<not> catalogOk (medicines (handleUpdateMedicine ''m1'' (syrup\<lparr>quantity := - 1\<rparr>) shop)) \<and>
   catalogOk (medicines (handleUpdateMedicine ''zz'' (syrup\<lparr>quantity := - 1\<rparr>) shop)) \<and>
   catalogOk (medicines (handleDeleteMedicine ''m1'' shop)) \<and>
   catalogOk (medicines (snd (handleSell ''s1'' ''2024-01-01T00:00:00.000Z''
                                (saleDataOf (request ''m1'' 3) tablets) shop))) \<and>
   catalogOk (medicines (snd (handleSubmit ''s1'' ''2024-01-01T00:00:00.000Z''
                                (request ''m1'' 3) shop)))"
proof -
  have h: "catalogOk (medicines shop)"
    by (simp add: catalogOk_def shop_def tablets_def)
  have d: "0 \<le> quantity syrup \<and> 0 \<le> price syrup"
    by (simp add: syrup_def)
  have m: "''m1'' \<in> set (map med_id (medicines shop))"
    and z: "''zz'' \<notin> set (map med_id (medicines shop))"
    by (simp_all add: shop_def tablets_def)
  have n: "\<not> (0 \<le> quantity (syrup\<lparr>quantity := - 1\<rparr>) \<and> 0 \<le> price (syrup\<lparr>quantity := - 1\<rparr>))"
    by simp
  have u: "distinct (map med_id (medicines shop))"
    by (simp add: shop_def)
  have a: "catalogOk (medicines (handleAddMedicine ''m3'' syrup shop))"
    using catalog_invariant_preserved [OF h, where newId = "''m3''" and medicineData = syrup] d
    by blast
  have b: "catalogOk (medicines (handleUpdateMedicine ''m1'' syrup shop))"
    using catalog_invariant_preserved [OF h, where medicineData = syrup and i = "''m1''"] d
    by blast
  have b': "\<not> catalogOk (medicines (handleUpdateMedicine ''m1'' (syrup\<lparr>quantity := - 1\<rparr>) shop))"
    using catalog_invariant_preserved [OF h, where medicineData = "syrup\<lparr>quantity := - 1\<rparr>"
        and i = "''m1''"] m n
    by blast
  have b'': "catalogOk (medicines (handleUpdateMedicine ''zz'' (syrup\<lparr>quantity := - 1\<rparr>) shop))"
    using catalog_invariant_preserved [OF h, where medicineData = "syrup\<lparr>quantity := - 1\<rparr>"
        and i = "''zz''"] z
    by blast
  have c: "catalogOk (medicines (handleDeleteMedicine ''m1'' shop))"
    using catalog_invariant_preserved [OF h, where i = "''m1''"] by blast
  have e: "catalogOk (medicines (snd (handleSell ''s1'' ''2024-01-01T00:00:00.000Z''
                                (saleDataOf (request ''m1'' 3) tablets) shop)))"
    using catalog_invariant_preserved [OF h, where newId = "''s1''"
        and stamp = "''2024-01-01T00:00:00.000Z''"
        and saleData = "saleDataOf (request ''m1'' 3) tablets"] u
    by blast
  have f: "catalogOk (medicines (snd (handleSubmit ''s1'' ''2024-01-01T00:00:00.000Z''
                                (request ''m1'' 3) shop)))"
    using catalog_invariant_preserved [OF h, where newId = "''s1''"
        and stamp = "''2024-01-01T00:00:00.000Z''" and formData = "request ''m1'' 3"] u
    by blast
  from h d m n u a b b' b'' c e f show ?thesis by (intro conjI) simp_all
qed

text \<open>
  Claim C9 as written fails for three of the four mutations. A medicine added with the
  quantity \<open>- 1\<close> is stored as it is, and so is an edit that sets the price \<open>- 7\<close>. In
  a catalog where a second medicine with the stock 2 carries the id of the tablets, a
  sale of 3 tablets passes both guards on the first medicine and takes 3 from each, so
  the second is left with \<open>- 1\<close>.
\<close>

theorem catalog_invariant_counterexample:
  "catalogOk (medicines shop) \<and>
   \<not> catalogOk (medicines (handleAddMedicine ''m3'' (syrup\<lparr>quantity := - 1\<rparr>) shop)) \<and>
   \<not> catalogOk (medicines (handleUpdateMedicine ''m1'' (syrup\<lparr>price := - 7\<rparr>) shop)) \<and>
   catalogOk (medicines twins) \<and>
   fst (handleSubmit ''s1'' ''2024-01-01T00:00:00.000Z'' (request ''m1'' 3) twins)
     = Inr (withIdAndTime (saleDataOf (request ''m1'' 3) tablets) ''s1''
              ''2024-01-01T00:00:00.000Z'') \<and>
   map quantity
     (medicines (snd (handleSubmit ''s1'' ''2024-01-01T00:00:00.000Z'' (request ''m1'' 3) twins)))
     = [0, - 1] \<and>
   \<not> catalogOk
     (medicines (snd (handleSubmit ''s1'' ''2024-01-01T00:00:00.000Z'' (request ''m1'' 3) twins)))"
  by (simp add: catalogOk_def handleAddMedicine_def handleUpdateMedicine_def handleSubmit_def
      handleSell_def withId_def withIdAndTime_def saleDataOf_def request_def shop_def twins_def
      tablets_def drops_def syrup_def Let_def)

section \<open>Selling an expired medicine\<close>

lemma resolve_expiry_update:
  "resolve i (map (expiryDate_update f) meds) = map_option (expiryDate_update f) (resolve i meds)"
  unfolding resolve_def by (induction meds) simp_all

lemma afterSale_expiry_update:
  "afterSale i q (map (expiryDate_update f) meds) = map (expiryDate_update f) (afterSale i q meds)"
  unfolding afterSale_def by (induction meds) simp_all

lemma handleSell_expiry_update:
  "handleSell newId stamp saleData (st\<lparr>medicines := map (expiryDate_update f) (medicines st)\<rparr>)
     = (fst (handleSell newId stamp saleData st),
        (snd (handleSell newId stamp saleData st))
          \<lparr>medicines := map (expiryDate_update f)
                           (medicines (snd (handleSell newId stamp saleData st)))\<rparr>)"
proof (cases "resolve (medicineId saleData) (medicines st)")
  case None
  then have "resolve (medicineId saleData)
               (medicines (st\<lparr>medicines := map (expiryDate_update f) (medicines st)\<rparr>)) = None"
    by (simp add: resolve_expiry_update)
  with None show ?thesis
    by (simp add: handleSell_refuse)
next
  case (Some m)
  then have r: "resolve (medicineId saleData)
                  (medicines (st\<lparr>medicines := map (expiryDate_update f) (medicines st)\<rparr>))
                = Some (expiryDate_update f m)"
    by (simp add: resolve_expiry_update)
  show ?thesis
  proof (cases "quantity m < sale_quantity saleData")
    case True
    with Some r show ?thesis
      by (simp add: handleSell_refuse)
  next
    case False
    then have q: "sale_quantity saleData \<le> quantity m"
      and q': "sale_quantity saleData \<le> quantity (expiryDate_update f m)"
      by simp_all
    show ?thesis
      unfolding handleSell_commit [OF Some q] handleSell_commit [OF r q']
      by (simp add: afterSale_expiry_update)
  qed
qed

text \<open>
  Claim C10. \<open>handleSell\<close> does not look at the expiry date. A sale of \<open>0 < q \<le> Q\<close>
  units of an expired medicine is committed like any other: the record is put in front
  of the history and the medicine's quantity becomes \<open>Q - q\<close>. Changing the expiry
  dates of the catalog in any way changes neither the outcome nor the history nor any
  quantity after the sale, and the form's handler accepts the same request. Only the
  list the form offers for selection leaves the expired medicine out.
\<close>

theorem handleSell_no_expiry_check:
  assumes "resolve (medicineId saleData) (medicines st) = Some m"
    and "isExpired now (expiryDate m)"
    and "0 < sale_quantity saleData"
    and "sale_quantity saleData \<le> quantity m"
  shows "\<exists>st'. handleSell newId stamp saleData st = (Inr (withIdAndTime saleData newId stamp), st') \<and>
           sales st' = withIdAndTime saleData newId stamp # sales st \<and>
           resolve (medicineId saleData) (medicines st')
             = Some (m\<lparr>quantity := quantity m - sale_quantity saleData\<rparr>) \<and>
           fst (handleSell newId stamp saleData
                  (st\<lparr>medicines := map (expiryDate_update f) (medicines st)\<rparr>))
             = Inr (withIdAndTime saleData newId stamp) \<and>
           sales (snd (handleSell newId stamp saleData
                  (st\<lparr>medicines := map (expiryDate_update f) (medicines st)\<rparr>)))
             = sales st' \<and>
           map quantity (medicines (snd (handleSell newId stamp saleData
                  (st\<lparr>medicines := map (expiryDate_update f) (medicines st)\<rparr>))))
             = map quantity (medicines st') \<and>
           (\<exists>sale. fst (handleSubmit newId stamp
                          \<lparr>req_customerName = customerName saleData,
                           req_medicineId = medicineId saleData,
                           req_quantity = sale_quantity saleData\<rparr> st) = Inr sale) \<and>
           m \<notin> set (availableMedicines now (medicines st))"
proof -
  let ?st' = "st\<lparr>sales := withIdAndTime saleData newId stamp # sales st,
                 medicines := afterSale (medicineId saleData) (sale_quantity saleData)
                                (medicines st)\<rparr>"
  let ?rq = "\<lparr>req_customerName = customerName saleData,
              req_medicineId = medicineId saleData,
              req_quantity = sale_quantity saleData\<rparr>"
  have c: "handleSell newId stamp saleData st = (Inr (withIdAndTime saleData newId stamp), ?st')"
    by (rule handleSell_commit [OF assms(1,4)])
  have s: "sales ?st' = withIdAndTime saleData newId stamp # sales st"
    by simp
  have r: "resolve (medicineId saleData) (medicines ?st')
             = Some (m\<lparr>quantity := quantity m - sale_quantity saleData\<rparr>)"
    using resolve_afterSale [OF assms(1)] by simp
  have e1: "fst (handleSell newId stamp saleData
                  (st\<lparr>medicines := map (expiryDate_update f) (medicines st)\<rparr>))
             = Inr (withIdAndTime saleData newId stamp)"
    unfolding handleSell_expiry_update c by simp
  have e2: "sales (snd (handleSell newId stamp saleData
                  (st\<lparr>medicines := map (expiryDate_update f) (medicines st)\<rparr>)))
             = sales ?st'"
    unfolding handleSell_expiry_update c by simp
  have e3: "map quantity (medicines (snd (handleSell newId stamp saleData
                  (st\<lparr>medicines := map (expiryDate_update f) (medicines st)\<rparr>))))
             = map quantity (medicines ?st')"
    unfolding handleSell_expiry_update c by (simp add: comp_def)
  have "resolve (req_medicineId ?rq) (medicines st) = Some m" "0 < req_quantity ?rq"
    "req_quantity ?rq \<le> quantity m"
    using assms by simp_all
  then have "fst (handleSubmit newId stamp ?rq st)
               = Inr (withIdAndTime (saleDataOf ?rq m) newId stamp)"
    by (simp add: handleSubmit_commit [where m = m])
  then have h: "\<exists>sale. fst (handleSubmit newId stamp ?rq st) = Inr sale"
    by (rule exI)
  have a: "m \<notin> set (availableMedicines now (medicines st))"
    using assms(2) by (simp add: availableMedicines_def)
  from c s r e1 e2 e3 h a show ?thesis
    by (intro exI [of _ ?st'] conjI)
qed

theorem handleSell_no_expiry_check_witness:
  "resolve (medicineId (saleDataOf (request ''m1'' 3) tablets)) (medicines shop) = Some tablets \<and>
   isExpired 6000 (expiryDate tablets) \<and>
   0 < sale_quantity (saleDataOf (request ''m1'' 3) tablets) \<and>
   sale_quantity (saleDataOf (request ''m1'' 3) tablets) \<le> quantity tablets \<and>
   fst (handleSell ''s1'' ''2024-01-01T00:00:00.000Z'' (saleDataOf (request ''m1'' 3) tablets) shop)
     = Inr (withIdAndTime (saleDataOf (request ''m1'' 3) tablets) ''s1''
              ''2024-01-01T00:00:00.000Z'') \<and>
   tablets \<notin> set (availableMedicines 6000 (medicines shop))"
proof -
  have h1: "resolve (medicineId (saleDataOf (request ''m1'' 3) tablets)) (medicines shop)
              = Some tablets"
    by (simp add: resolve_def saleDataOf_def shop_def tablets_def)
  have h2: "isExpired 6000 (expiryDate tablets)"
    by (simp add: isExpired_def tablets_def)
  have h3: "0 < sale_quantity (saleDataOf (request ''m1'' 3) tablets)"
    by (simp add: saleDataOf_def request_def)
  have h4: "sale_quantity (saleDataOf (request ''m1'' 3) tablets) \<le> quantity tablets"
    by (simp add: saleDataOf_def request_def tablets_def)
  from handleSell_no_expiry_check [OF h1 h2 h3 h4, where newId = "''s1''"
      and stamp = "''2024-01-01T00:00:00.000Z''" and f = id]
  have "fst (handleSell ''s1'' ''2024-01-01T00:00:00.000Z''
               (saleDataOf (request ''m1'' 3) tablets) shop)
     = Inr (withIdAndTime (saleDataOf (request ''m1'' 3) tablets) ''s1''
              ''2024-01-01T00:00:00.000Z'')"
    and "tablets \<notin> set (availableMedicines 6000 (medicines shop))"
    by auto
  with h1 h2 h3 h4 show ?thesis by (intro conjI)
qed

end
